theory Spec2Isabelle
  imports Complex_Main
begin

section \<open>JavaScript numbers\<close>

text \<open>
  The estimation and sampling code of \<^verbatim>\<open>src/utils/statistics.ts\<close> and
  \<^verbatim>\<open>src/utils/distributions.ts\<close> computes on JavaScript numbers. A number is modelled
  as an exact real or one of the three special values the code can produce by dividing by
  zero, taking the logarithm of zero or subtracting infinities. Finite arithmetic is exact:
  rounding, overflow and the sign of zero are not modelled. The statements proved below are
  kept to what does not depend on them: values that the source computes without rounding,
  and properties of control flow and of the special values.
\<close>

datatype jsnum = Fin real | PInf | NInf | NaN

fun js_neg :: "jsnum \<Rightarrow> jsnum" where
  "js_neg (Fin a) = Fin (- a)"
| "js_neg PInf = NInf"
| "js_neg NInf = PInf"
| "js_neg NaN = NaN"

fun js_add :: "jsnum \<Rightarrow> jsnum \<Rightarrow> jsnum" where
  "js_add (Fin a) (Fin b) = Fin (a + b)"
| "js_add NaN y = NaN"
| "js_add x NaN = NaN"
| "js_add PInf NInf = NaN"
| "js_add NInf PInf = NaN"
| "js_add PInf y = PInf"
| "js_add x PInf = PInf"
| "js_add NInf y = NInf"
| "js_add x NInf = NInf"

fun js_mul :: "jsnum \<Rightarrow> jsnum \<Rightarrow> jsnum" where
  "js_mul (Fin a) (Fin b) = Fin (a * b)"
| "js_mul NaN y = NaN"
| "js_mul x NaN = NaN"
| "js_mul (Fin a) PInf = (if a = 0 then NaN else if 0 < a then PInf else NInf)"
| "js_mul (Fin a) NInf = (if a = 0 then NaN else if 0 < a then NInf else PInf)"
| "js_mul PInf (Fin b) = (if b = 0 then NaN else if 0 < b then PInf else NInf)"
| "js_mul NInf (Fin b) = (if b = 0 then NaN else if 0 < b then NInf else PInf)"
| "js_mul PInf PInf = PInf"
| "js_mul PInf NInf = NInf"
| "js_mul NInf PInf = NInf"
| "js_mul NInf NInf = PInf"

fun js_div :: "jsnum \<Rightarrow> jsnum \<Rightarrow> jsnum" where
  "js_div (Fin a) (Fin b) =
     (if b \<noteq> 0 then Fin (a / b) else if a = 0 then NaN else if 0 < a then PInf else NInf)"
| "js_div NaN y = NaN"
| "js_div x NaN = NaN"
| "js_div (Fin a) PInf = Fin 0"
| "js_div (Fin a) NInf = Fin 0"
| "js_div PInf (Fin b) = (if 0 \<le> b then PInf else NInf)"
| "js_div NInf (Fin b) = (if 0 \<le> b then NInf else PInf)"
| "js_div PInf PInf = NaN"
| "js_div PInf NInf = NaN"
| "js_div NInf PInf = NaN"
| "js_div NInf NInf = NaN"

text \<open>The comparison \<^verbatim>\<open>a < b\<close>: false as soon as one side is NaN.\<close>

fun js_lt :: "jsnum \<Rightarrow> jsnum \<Rightarrow> bool" where
  "js_lt (Fin a) (Fin b) = (a < b)"
| "js_lt NaN y = False"
| "js_lt x NaN = False"
| "js_lt x NInf = False"
| "js_lt PInf y = False"
| "js_lt NInf y = True"
| "js_lt x PInf = True"

fun js_le :: "jsnum \<Rightarrow> jsnum \<Rightarrow> bool" where
  "js_le (Fin a) (Fin b) = (a \<le> b)"
| "js_le NaN y = False"
| "js_le x NaN = False"
| "js_le NInf y = True"
| "js_le x PInf = True"
| "js_le x NInf = False"
| "js_le PInf y = False"

text \<open>
  The operators of the source are written with the usual symbols: on \<^typ>\<open>jsnum\<close> they
  are the JavaScript operations above, not field operations.
\<close>

instantiation jsnum :: "{plus, minus, uminus, times, inverse, ord}"
begin

definition plus_jsnum :: "jsnum \<Rightarrow> jsnum \<Rightarrow> jsnum" where
  "plus_jsnum a b = js_add a b"

definition uminus_jsnum :: "jsnum \<Rightarrow> jsnum" where
  "uminus_jsnum a = js_neg a"

definition minus_jsnum :: "jsnum \<Rightarrow> jsnum \<Rightarrow> jsnum" where
  "minus_jsnum a b = js_add a (js_neg b)"

definition times_jsnum :: "jsnum \<Rightarrow> jsnum \<Rightarrow> jsnum" where
  "times_jsnum a b = js_mul a b"

definition divide_jsnum :: "jsnum \<Rightarrow> jsnum \<Rightarrow> jsnum" where
  "divide_jsnum a b = js_div a b"

definition inverse_jsnum :: "jsnum \<Rightarrow> jsnum" where
  "inverse_jsnum a = js_div (Fin 1) a"

definition less_jsnum :: "jsnum \<Rightarrow> jsnum \<Rightarrow> bool" where
  "less_jsnum a b = js_lt a b"

definition less_eq_jsnum :: "jsnum \<Rightarrow> jsnum \<Rightarrow> bool" where
  "less_eq_jsnum a b = js_le a b"

instance ..

end

text \<open>\<^verbatim>\<open>Math.sqrt\<close>, \<^verbatim>\<open>Math.log\<close>, \<^verbatim>\<open>Math.exp\<close>, \<^verbatim>\<open>Math.cos\<close>.\<close>

fun js_sqrt :: "jsnum \<Rightarrow> jsnum" where
  "js_sqrt (Fin a) = (if 0 \<le> a then Fin (sqrt a) else NaN)"
| "js_sqrt PInf = PInf"
| "js_sqrt NInf = NaN"
| "js_sqrt NaN = NaN"

fun js_log :: "jsnum \<Rightarrow> jsnum" where
  "js_log (Fin a) = (if 0 < a then Fin (ln a) else if a = 0 then NInf else NaN)"
| "js_log PInf = PInf"
| "js_log NInf = NaN"
| "js_log NaN = NaN"

fun js_exp :: "jsnum \<Rightarrow> jsnum" where
  "js_exp (Fin a) = Fin (exp a)"
| "js_exp PInf = PInf"
| "js_exp NInf = Fin 0"
| "js_exp NaN = NaN"

fun js_cos :: "jsnum \<Rightarrow> jsnum" where
  "js_cos (Fin a) = Fin (cos a)"
| "js_cos x = NaN"

text \<open>\<^verbatim>\<open>Math.pow(x, k)\<close> for the literal exponents 2, 3 and 4 of the source.\<close>

fun js_pow :: "jsnum \<Rightarrow> nat \<Rightarrow> jsnum" where
  "js_pow x 0 = Fin 1"
| "js_pow (Fin a) k = Fin (a ^ k)"
| "js_pow PInf k = PInf"
| "js_pow NInf k = (if even k then PInf else NInf)"
| "js_pow NaN k = NaN"

text \<open>\<^verbatim>\<open>Math.round\<close> rounds halves upwards; \<^verbatim>\<open>Math.floor\<close>, \<^verbatim>\<open>Math.ceil\<close>,
  \<^verbatim>\<open>Number.isInteger\<close>.\<close>

fun js_round :: "jsnum \<Rightarrow> jsnum" where
  "js_round (Fin a) = Fin (of_int \<lfloor>a + 1 / 2\<rfloor>)"
| "js_round x = x"

fun js_floor :: "jsnum \<Rightarrow> jsnum" where
  "js_floor (Fin a) = Fin (of_int \<lfloor>a\<rfloor>)"
| "js_floor x = x"

fun js_ceil :: "jsnum \<Rightarrow> jsnum" where
  "js_ceil (Fin a) = Fin (of_int \<lceil>a\<rceil>)"
| "js_ceil x = x"

fun js_isInteger :: "jsnum \<Rightarrow> bool" where
  "js_isInteger (Fin a) = (a = of_int \<lfloor>a\<rfloor>)"
| "js_isInteger x = False"

text \<open>\<^verbatim>\<open>Math.max(a, b)\<close> and \<^verbatim>\<open>Math.min(a, b)\<close>: NaN as soon as one argument is NaN.\<close>

fun js_max :: "jsnum \<Rightarrow> jsnum \<Rightarrow> jsnum" where
  "js_max NaN y = NaN"
| "js_max x NaN = NaN"
| "js_max x y = (if js_lt x y then y else x)"

fun js_min :: "jsnum \<Rightarrow> jsnum \<Rightarrow> jsnum" where
  "js_min NaN y = NaN"
| "js_min x NaN = NaN"
| "js_min x y = (if js_lt y x then y else x)"

text \<open>\<^verbatim>\<open>Math.max(...xs)\<close> is \<^verbatim>\<open>-Infinity\<close> and \<^verbatim>\<open>Math.min(...xs)\<close> is
  \<^verbatim>\<open>Infinity\<close> on no arguments.\<close>

definition Math_max :: "jsnum list \<Rightarrow> jsnum" where
  "Math_max xs = foldl js_max NInf xs"

definition Math_min :: "jsnum list \<Rightarrow> jsnum" where
  "Math_min xs = foldl js_min PInf xs"

text \<open>The remainder operator \<^verbatim>\<open>a % b\<close>: the quotient is truncated towards zero, so the
  result has the sign of the dividend.\<close>

definition trunc :: "real \<Rightarrow> int" where
  "trunc x = (if 0 \<le> x then \<lfloor>x\<rfloor> else \<lceil>x\<rceil>)"

fun js_rem :: "jsnum \<Rightarrow> jsnum \<Rightarrow> jsnum" where
  "js_rem (Fin a) (Fin b) = (if b = 0 then NaN else Fin (a - b * of_int (trunc (a / b))))"
| "js_rem (Fin a) PInf = Fin a"
| "js_rem (Fin a) NInf = Fin a"
| "js_rem x y = NaN"

text \<open>
  Reading an array outside its bounds, or a field an object does not have, gives
  \<^verbatim>\<open>undefined\<close>, here \<open>None\<close>; used in arithmetic, \<^verbatim>\<open>undefined\<close> becomes NaN.
\<close>

fun js_index :: "jsnum list \<Rightarrow> jsnum \<Rightarrow> jsnum option" where
  "js_index xs (Fin i) =
     (if i = of_int \<lfloor>i\<rfloor> \<and> 0 \<le> i \<and> i < real (length xs) then Some (xs ! nat \<lfloor>i\<rfloor>) else None)"
| "js_index xs i = None"

fun to_num :: "jsnum option \<Rightarrow> jsnum" where
  "to_num (Some x) = x"
| "to_num None = NaN"

text \<open>An object with numeric fields (\<^verbatim>\<open>Record<string, number>\<close>): its entries in the
  order of the object literal.\<close>

type_synonym params = "(string \<times> jsnum) list"

definition field :: "params \<Rightarrow> string \<Rightarrow> jsnum" where
  "field ps k = to_num (map_of ps k)"

section \<open>Outcomes\<close>

text \<open>
  The error taxonomy of the specification. A call of the source that returns normally is
  \<open>Inr\<close> of its value; a call that throws would be \<open>Inl\<close> of the error.
\<close>

datatype error = ValidationError | EstimationError | InsufficientDataError

section \<open>Descriptive statistics (statistics.ts)\<close>

record Quartiles =
  q1 :: "jsnum option"
  q2 :: "jsnum option"
  q3 :: "jsnum option"

record SummaryStatistics =
  mean :: jsnum
  median :: "jsnum option"
  mode :: "jsnum option"
  variance :: jsnum
  standardDeviation :: jsnum
  min_val :: "jsnum option"
  max_val :: "jsnum option"
  range_val :: jsnum
  quartiles :: Quartiles
  interquartileRange :: jsnum
  skewness :: jsnum
  kurtosis :: jsnum

text \<open>\<^verbatim>\<open>calculatePercentile\<close>: linear interpolation between the two neighbours of the
  fractional index. It returns the array element itself when the index is integral, which
  is \<^verbatim>\<open>undefined\<close> on an empty array.\<close>

definition calculatePercentile :: "jsnum list \<Rightarrow> real \<Rightarrow> jsnum option" where
  "calculatePercentile sortedData percentile =
     (let n = Fin (real (length sortedData));
          index = (Fin percentile / Fin 100) * (n - Fin 1)
      in if js_isInteger index then js_index sortedData index
         else
           (let lower = js_floor index;
                upper = js_ceil index;
                weight = index - lower
            in Some (to_num (js_index sortedData lower) * (Fin 1 - weight)
                     + to_num (js_index sortedData upper) * weight)))"

definition calculateSkewness :: "jsnum list \<Rightarrow> jsnum \<Rightarrow> jsnum \<Rightarrow> jsnum" where
  "calculateSkewness data mean' stdDev =
     (let n = Fin (real (length data));
          total = foldl (\<lambda>sum x. sum + js_pow ((x - mean') / stdDev) 3) (Fin 0) data
      in (n / ((n - Fin 1) * (n - Fin 2))) * total)"

definition calculateKurtosis :: "jsnum list \<Rightarrow> jsnum \<Rightarrow> jsnum \<Rightarrow> jsnum" where
  "calculateKurtosis data mean' stdDev =
     (let n = Fin (real (length data));
          total = foldl (\<lambda>sum x. sum + js_pow ((x - mean') / stdDev) 4) (Fin 0) data
      in ((n * (n + Fin 1)) / ((n - Fin 1) * (n - Fin 2) * (n - Fin 3))) * total
         - (Fin 3 * js_pow (n - Fin 1) 2) / ((n - Fin 2) * (n - Fin 3)))"

text \<open>
  The frequency table of the mode: an object keyed by the values rounded to two decimals.
  \<open>bump\<close> is \<^verbatim>\<open>frequency[rounded] = (frequency[rounded] || 0) + 1\<close>: a new key goes to the
  end, an old one keeps its place. \<^verbatim>\<open>Object.keys\<close> lists the keys that are array
  indices (integers from 0 to \<open>2^32 - 2\<close>) first, in ascending order, then the other keys
  in insertion order. A key stands for the number it prints.
\<close>

fun bump :: "(real \<times> nat) list \<Rightarrow> real \<Rightarrow> (real \<times> nat) list" where
  "bump [] k = [(k, 1)]"
| "bump ((k', c) # fr) k = (if k' = k then (k', c + 1) # fr else (k', c) # bump fr k)"

definition is_array_index :: "real \<Rightarrow> bool" where
  "is_array_index k = (k = of_int \<lfloor>k\<rfloor> \<and> 0 \<le> k \<and> k \<le> 4294967294)"

definition Object_keys :: "(real \<times> nat) list \<Rightarrow> real list" where
  "Object_keys fr =
     sort (filter is_array_index (map fst fr)) @ filter (\<lambda>k. \<not> is_array_index k) (map fst fr)"

definition rounded2 :: "real \<Rightarrow> real" where
  "rounded2 x = (case js_round (Fin x * Fin 100) / Fin 100 of Fin r \<Rightarrow> r | _ \<Rightarrow> 0)"

definition calculateMode :: "real list \<Rightarrow> jsnum option" where
  "calculateMode data =
     (let frequency = foldl (\<lambda>fr x. bump fr (rounded2 x)) [] data;
          maxFreq = Math_max (map (\<lambda>(k, c). Fin (real c)) frequency)
      in if Fin 1 < maxFreq
         then (case List.find (\<lambda>key. map_option (\<lambda>c. Fin (real c)) (map_of frequency key) = Some maxFreq)
                      (Object_keys frequency) of
                 Some key \<Rightarrow> Some (Fin key)
               | None \<Rightarrow> Some (Fin 0))
         else None)"

text \<open>
  \<^verbatim>\<open>calculateSummaryStats\<close>. The sample is a list of finite numbers (the comparator
  \<^verbatim>\<open>(a, b) => a - b\<close> then sorts ascending). The source has no \<^verbatim>\<open>throw\<close>: every call
  returns a record. \<open>None\<close> in \<open>median\<close>, \<open>min_val\<close>, \<open>max_val\<close> and the quartiles is
  \<^verbatim>\<open>undefined\<close>; \<open>None\<close> in \<open>mode\<close> is \<^verbatim>\<open>null\<close>.
\<close>

definition calculateSummaryStats :: "real list \<Rightarrow> error + SummaryStatistics" where
  "calculateSummaryStats data =
     (let xs = map Fin data;
          sortedData = map Fin (sort data);
          n = Fin (real (length data));
          mean' = foldl (\<lambda>sum x. sum + x) (Fin 0) xs / n;
          variance' = foldl (\<lambda>sum x. sum + js_pow (x - mean') 2) (Fin 0) xs / (n - Fin 1);
          standardDeviation' = js_sqrt variance';
          median' = calculatePercentile sortedData 50;
          q1' = calculatePercentile sortedData 25;
          q3' = calculatePercentile sortedData 75;
          mode' = calculateMode data;
          skewness' = calculateSkewness xs mean' standardDeviation';
          kurtosis' = calculateKurtosis xs mean' standardDeviation'
      in Inr \<lparr> mean = mean',
               median = median',
               mode = mode',
               variance = variance',
               standardDeviation = standardDeviation',
               min_val = js_index sortedData (Fin 0),
               max_val = js_index sortedData (n - Fin 1),
               range_val = to_num (js_index sortedData (n - Fin 1)) - to_num (js_index sortedData (Fin 0)),
               quartiles = \<lparr> q1 = q1', q2 = median', q3 = q3' \<rparr>,
               interquartileRange = to_num q3' - to_num q1',
               skewness = skewness',
               kurtosis = kurtosis' \<rparr>)"

section \<open>Estimation (statistics.ts)\<close>

datatype Method = MLE | MoM

text \<open>The field \<^verbatim>\<open>method\<close> of the source is \<open>est_method\<close> here.\<close>

record EstimationResult =
  est_method :: Method
  estimatedParams :: params
  logLikelihood :: "jsnum option"

text \<open>\<^verbatim>\<open>calculateLogLikelihood\<close>: only the normal and the exponential family have a
  case; every other distribution name falls to the default.\<close>

definition calculateLogLikelihood :: "jsnum list \<Rightarrow> string \<Rightarrow> params \<Rightarrow> jsnum" where
  "calculateLogLikelihood data distribution ps =
     (if distribution = ''normal'' then
        (let mean' = field ps ''mean''; stdDev = field ps ''stdDev''
         in foldl (\<lambda>logLikelihood x.
                     logLikelihood
                     + (Fin (- 0.5) * js_log (Fin 2 * Fin pi * stdDev * stdDev)
                        - Fin 0.5 * js_pow ((x - mean') / stdDev) 2))
              (Fin 0) data)
      else if distribution = ''exponential'' then
        (let lambda = field ps ''lambda''
         in foldl (\<lambda>logLikelihood x. logLikelihood + (js_log lambda - lambda * x)) (Fin 0) data)
      else NInf)"

text \<open>\<^verbatim>\<open>estimateMLE\<close>, on a sample of finite numbers; \<open>initialParams\<close> is not read. A
  distribution name outside the five cases leaves \<open>estimatedParams\<close> empty. Like the rest
  of statistics.ts it has no \<^verbatim>\<open>throw\<close>: every call returns a result.\<close>

definition estimateMLE :: "real list \<Rightarrow> string \<Rightarrow> params \<Rightarrow> error + EstimationResult" where
  "estimateMLE data distribution initialParams =
     (let xs = map Fin data;
          n = Fin (real (length data));
          mean' = foldl (\<lambda>sum x. sum + x) (Fin 0) xs / n;
          variance' = foldl (\<lambda>sum x. sum + js_pow (x - mean') 2) (Fin 0) xs / n;
          estimatedParams' =
            (if distribution = ''normal'' then
               [(''mean'', mean'), (''stdDev'', js_sqrt variance')]
             else if distribution = ''exponential'' then
               [(''lambda'', Fin 1 / mean')]
             else if distribution = ''poisson'' then
               [(''lambda'', mean')]
             else if distribution = ''uniform'' then
               [(''min'', Math_min xs), (''max'', Math_max xs)]
             else if distribution = ''binomial'' then
               [(''n'', Math_max xs + Fin 1), (''p'', mean' / (Math_max xs + Fin 1))]
             else [])
      in Inr \<lparr> est_method = MLE,
               estimatedParams = estimatedParams',
               logLikelihood = Some (calculateLogLikelihood xs distribution estimatedParams') \<rparr>)"

definition estimateMoM :: "real list \<Rightarrow> string \<Rightarrow> params \<Rightarrow> error + EstimationResult" where
  "estimateMoM data distribution initialParams =
     (let xs = map Fin data;
          n = Fin (real (length data));
          mean' = foldl (\<lambda>sum x. sum + x) (Fin 0) xs / n;
          variance' = foldl (\<lambda>sum x. sum + js_pow (x - mean') 2) (Fin 0) xs / n;
          estimatedParams' =
            (if distribution = ''normal'' then
               [(''mean'', mean'), (''stdDev'', js_sqrt variance')]
             else if distribution = ''exponential'' then
               [(''lambda'', Fin 1 / mean')]
             else if distribution = ''poisson'' then
               [(''lambda'', mean')]
             else if distribution = ''uniform'' then
               (let stdDev = js_sqrt variance'
                in [(''min'', mean' - js_sqrt (Fin 3) * stdDev),
                    (''max'', mean' + js_sqrt (Fin 3) * stdDev)])
             else if distribution = ''binomial'' then
               (let p = Fin 1 - (variance' / mean');
                    n_est = mean' / p
                in [(''n'', js_round n_est), (''p'', js_max (Fin 0.01) (js_min (Fin 0.99) p))])
             else [])
      in Inr \<lparr> est_method = MoM,
               estimatedParams = estimatedParams',
               logLikelihood = Some (calculateLogLikelihood xs distribution estimatedParams') \<rparr>)"

section \<open>Sampling (distributions.ts)\<close>

datatype DistributionType = Normal | Exponential | Binomial | Poisson | Uniform

text \<open>
  The uniform source \<^verbatim>\<open>random: () => number\<close> is a closure over hidden state: a function
  from the state to the number drawn and the next state.
\<close>

type_synonym 's random_source = "'s \<Rightarrow> jsnum \<times> 's"

text \<open>
  \<^verbatim>\<open>for (let i = 0; i < bound; i++) body\<close>, started at counter \<open>i\<close>. The bound is a
  JavaScript number: the loop does not run when it is NaN and never ends when it is
  \<^verbatim>\<open>Infinity\<close>. Not returning is the value \<open>None\<close>.
\<close>

partial_function (option) for_loop :: "nat \<Rightarrow> jsnum \<Rightarrow> ('a \<Rightarrow> 'a option) \<Rightarrow> 'a \<Rightarrow> 'a option" where
  "for_loop i bound body st =
     (if Fin (real i) < bound
      then Option.bind (body st) (\<lambda>st'. for_loop (Suc i) bound body st')
      else Some st)"

text \<open>
  The \<^verbatim>\<open>while (u > F)\<close> loop of the Poisson case. Whether the loop of the source ends
  depends on the rounding of \<open>p\<close> and \<open>F\<close> (\<^verbatim>\<open>Math.exp(-lambda)\<close> is 0 on doubles from
  \<open>lambda = 746\<close> on, and then \<open>F\<close> never grows), which exact arithmetic does not show: no
  statement below says that this loop ends.
\<close>

partial_function (option) poisson_while :: "jsnum \<Rightarrow> jsnum \<Rightarrow> nat \<Rightarrow> jsnum \<Rightarrow> jsnum \<Rightarrow> nat option" where
  "poisson_while u poissonLambda k p F =
     (if u > F
      then (let k' = Suc k;
                p' = p * (poissonLambda / Fin (real k'));
                F' = F + p'
            in poisson_while u poissonLambda k' p' F')
      else Some k)"

text \<open>
  \<^verbatim>\<open>generateWithCustomRandom\<close>. The loop state is the array \<open>data\<close> and the state of the
  random source. Parameters are read from the object by name; a missing one is
  \<^verbatim>\<open>undefined\<close>. No branch of the source throws, and none checks a parameter. The
  sampling formulas are exact here and rounded in the source, so the statements below are
  about the number of values returned and about draws of exactly 0, not about bounds on
  the rounded values.
\<close>

definition generateWithCustomRandom ::
  "DistributionType \<Rightarrow> params \<Rightarrow> jsnum \<Rightarrow> 's random_source \<Rightarrow> 's \<Rightarrow> (error + jsnum list) option" where
  "generateWithCustomRandom distribution ps sampleSize random s0 =
     map_option (\<lambda>(data, s). Inr data)
       (case distribution of
          Normal \<Rightarrow>
            (let mean' = field ps ''mean''; stdDev = field ps ''stdDev''
             in for_loop 0 sampleSize
                  (\<lambda>(data, s).
                     let (u1, s1) = random s;
                         (u2, s2) = random s1;
                         z0 = js_sqrt (Fin (- 2) * js_log u1) * js_cos (Fin 2 * Fin pi * u2)
                     in Some (data @ [mean' + stdDev * z0], s2))
                  ([], s0))
        | Exponential \<Rightarrow>
            (let lambda = field ps ''lambda''
             in for_loop 0 sampleSize
                  (\<lambda>(data, s).
                     let (u, s1) = random s
                     in Some (data @ [(- js_log u) / lambda], s1))
                  ([], s0))
        | Binomial \<Rightarrow>
            (let n = field ps ''n''; p = field ps ''p''
             in for_loop 0 sampleSize
                  (\<lambda>(data, s).
                     Option.bind
                       (for_loop 0 n
                          (\<lambda>(successes, s).
                             let (u, s1) = random s
                             in Some (if u < p then Suc successes else successes, s1))
                          (0, s))
                       (\<lambda>(successes, s1). Some (data @ [Fin (real successes)], s1)))
                  ([], s0))
        | Poisson \<Rightarrow>
            (let poissonLambda = field ps ''lambda''
             in for_loop 0 sampleSize
                  (\<lambda>(data, s).
                     let p = js_exp (- poissonLambda);
                         F = p;
                         (u, s1) = random s
                     in Option.bind (poisson_while u poissonLambda 0 p F)
                          (\<lambda>k. Some (data @ [Fin (real k)], s1)))
                  ([], s0))
        | Uniform \<Rightarrow>
            (let min' = field ps ''min''; max' = field ps ''max''
             in for_loop 0 sampleSize
                  (\<lambda>(data, s).
                     let (u, s1) = random s
                     in Some (data @ [min' + u * (max' - min')], s1))
                  ([], s0)))"

text \<open>
  The seeded source of \<^verbatim>\<open>generateData\<close>: a linear congruential generator whose state is
  \<open>currentSeed\<close>. For a state that is a natural number below \<open>2^32\<close> the product and the sum
  stay below \<open>2^53\<close> and the source computes them exactly; every later state is again such
  a number. Beyond that range the source rounds, and the step is stated only within it.
\<close>

definition lcg_random :: "jsnum random_source" where
  "lcg_random currentSeed =
     (let currentSeed' = js_rem (currentSeed * Fin 1664525 + Fin 1013904223) (Fin 4294967296)
      in (currentSeed' / Fin 4294967296, currentSeed'))"

text \<open>
  \<^verbatim>\<open>generateData\<close>. \<open>Math_random\<close> and \<open>env\<close> stand for \<^verbatim>\<open>Math.random\<close> and its hidden
  state at the time of the call; \<open>seed = None\<close> is the omitted argument.
\<close>

definition generateData ::
  "'e random_source \<Rightarrow> 'e \<Rightarrow> DistributionType \<Rightarrow> params \<Rightarrow> jsnum \<Rightarrow> jsnum option
     \<Rightarrow> (error + jsnum list) option" where
  "generateData Math_random env distribution ps sampleSize seed =
     (case seed of
        Some currentSeed \<Rightarrow> generateWithCustomRandom distribution ps sampleSize lcg_random currentSeed
      | None \<Rightarrow> generateWithCustomRandom distribution ps sampleSize Math_random env)"

section \<open>The estimator of the application component\<close>

text \<open>
  The root component of the application (the source printed after \<^verbatim>\<open>start-dev.ps1\<close>)
  defines its own \<^verbatim>\<open>estimateMLE\<close> and \<^verbatim>\<open>factorial\<close> and does not import statistics.ts.
  It is modelled here, as \<open>App_estimateMLE\<close>, to compare the two on the Poisson family.
\<close>

text \<open>\<^verbatim>\<open>factorial\<close>: \<^verbatim>\<open>for (let i = 2; i <= k; i++) result *= i\<close>, after the guards
  \<^verbatim>\<open>k < 0\<close> and \<^verbatim>\<open>k === 0\<close>.\<close>

function factorial_loop :: "nat \<Rightarrow> real \<Rightarrow> real \<Rightarrow> real" where
  "factorial_loop i k result =
     (if real i \<le> k then factorial_loop (Suc i) k (result * real i) else result)"
  by pat_completeness auto
termination
  by (relation "measure (\<lambda>(i, k, result). nat (\<lfloor>k\<rfloor> + 1 - int i))") (auto, linarith)

definition factorial :: "real \<Rightarrow> jsnum" where
  "factorial k = (if k < 0 then NaN else if k = 0 then Fin 1 else Fin (factorial_loop 2 k 1))"

text \<open>The component's \<^verbatim>\<open>estimateMLE(data, distribution)\<close>: each case computes its own
  log-likelihood; the binomial case and an unknown name leave it \<^verbatim>\<open>undefined\<close>.\<close>

definition App_estimateMLE :: "real list \<Rightarrow> string \<Rightarrow> error + EstimationResult" where
  "App_estimateMLE data distribution =
     (let xs = map Fin data;
          n = Fin (real (length data))
      in Inr
        (if distribution = ''normal'' then
           (let total = foldl (\<lambda>a b. a + b) (Fin 0) xs;
                mean' = total / n;
                variance' = foldl (\<lambda>a b. a + js_pow (b - mean') 2) (Fin 0) xs / n;
                stdDev = js_sqrt variance'
            in \<lparr> est_method = MLE,
                 estimatedParams = [(''mean'', mean'), (''stdDev'', stdDev)],
                 logLikelihood = Some (foldl (\<lambda>acc x.
                     acc + (Fin (- 0.5) * js_log (Fin 2 * Fin pi * variance')
                            - js_pow (x - mean') 2 / (Fin 2 * variance')))
                   (Fin 0) xs) \<rparr>)
         else if distribution = ''exponential'' then
           (let meanExp = foldl (\<lambda>a b. a + b) (Fin 0) xs / n;
                lambdaExp = Fin 1 / meanExp
            in \<lparr> est_method = MLE,
                 estimatedParams = [(''lambda'', lambdaExp)],
                 logLikelihood = Some (foldl (\<lambda>acc x. acc + js_log lambdaExp - lambdaExp * x)
                   (Fin 0) xs) \<rparr>)
         else if distribution = ''poisson'' then
           (let lambdaPois = foldl (\<lambda>a b. a + b) (Fin 0) xs / n
            in \<lparr> est_method = MLE,
                 estimatedParams = [(''lambda'', lambdaPois)],
                 logLikelihood = Some (foldl (\<lambda>acc k.
                     acc + Fin k * js_log lambdaPois - lambdaPois - js_log (factorial k))
                   (Fin 0) data) \<rparr>)
         else if distribution = ''uniform'' then
           (let minUni = Math_min xs;
                maxUni = Math_max xs
            in \<lparr> est_method = MLE,
                 estimatedParams = [(''min'', minUni), (''max'', maxUni)],
                 logLikelihood = Some (if minUni < maxUni then (- n) * js_log (maxUni - minUni)
                                       else NInf) \<rparr>)
         else if distribution = ''binomial'' then
           (let sampleMeanBin = foldl (\<lambda>a b. a + b) (Fin 0) xs / n;
                pBin = js_min (Fin 0.99) (js_max (Fin 0.01) (sampleMeanBin / Fin 10))
            in \<lparr> est_method = MLE,
                 estimatedParams = [(''n'', Fin 10), (''p'', pBin)],
                 logLikelihood = None \<rparr>)
         else \<lparr> est_method = MLE, estimatedParams = [], logLikelihood = None \<rparr>))"

section \<open>Auxiliary notions for the statements\<close>

text \<open>A number is finite when it is neither NaN nor an infinity.\<close>

fun is_fin :: "jsnum \<Rightarrow> bool" where
  "is_fin (Fin a) = True"
| "is_fin x = False"

text \<open>A uniform source that draws the same number at every call.\<close>

definition constant_source :: "jsnum \<Rightarrow> unit random_source" where
  "constant_source c s = (c, s)"

section \<open>Arithmetic on finite numbers\<close>

lemmas js_ops = plus_jsnum_def minus_jsnum_def times_jsnum_def divide_jsnum_def
  less_jsnum_def less_eq_jsnum_def uminus_jsnum_def inverse_jsnum_def

lemma Fin_arith [simp]:
  "Fin a + Fin b = Fin (a + b)"
  "Fin a - Fin b = Fin (a - b)"
  "Fin a * Fin b = Fin (a * b)"
  "(Fin a < Fin b) = (a < b)"
  by (simp_all add: js_ops)

lemma js_pow_Fin [simp]: "js_pow (Fin a) k = Fin (a ^ k)"
  by (cases k) simp_all

lemma js_pow_special [simp]:
  "0 < k \<Longrightarrow> js_pow NaN k = NaN"
  "0 < k \<Longrightarrow> js_pow PInf k = PInf"
  "0 < k \<Longrightarrow> js_pow NInf k = (if even k then PInf else NInf)"
  by (cases k; simp)+

lemma Fin_div [simp]: "b \<noteq> 0 \<Longrightarrow> Fin a / Fin b = Fin (a / b)"
  by (simp add: js_ops)

lemma PInf_mul_not_fin: "\<not> is_fin (PInf * x)"
  by (cases x) (simp_all add: js_ops)

lemma sub_fin_left: "is_fin (a - b) \<Longrightarrow> is_fin a"
  by (cases a; cases b) (simp_all add: js_ops)

text \<open>The two \<^verbatim>\<open>reduce\<close> calls shared by the three entry points, on a finite sample.\<close>

lemma foldl_add_Fin:
  "foldl (\<lambda>sum x. sum + x) (Fin a) (map Fin xs) = Fin (a + sum_list xs)"
  by (induction xs arbitrary: a) (simp_all add: add.assoc)

lemma foldl_sq_Fin:
  "foldl (\<lambda>sum x. sum + js_pow (x - Fin m) 2) (Fin a) (map Fin xs)
     = Fin (a + (\<Sum>x\<leftarrow>xs. (x - m)\<^sup>2))"
  by (induction xs arbitrary: a) (simp_all add: add.assoc)

lemma sumsq_nonneg: "0 \<le> (\<Sum>x\<leftarrow>xs. (x - m)\<^sup>2)" for m :: real
  by (induction xs) simp_all

lemma Math_max_Fin_aux: "foldl js_max (Fin a) (map Fin xs) = Fin (Max (set (a # xs)))"
proof (induction xs arbitrary: a)
  case Nil
  then show ?case by simp
next
  case (Cons x xs)
  have "js_max (Fin a) (Fin x) = Fin (max a x)" by (simp add: max_def)
  moreover have "Max (insert (max a x) (set xs)) = Max (insert a (insert x (set xs)))"
    by (cases "set xs = {}") (simp_all add: max.assoc)
  ultimately show ?case using Cons.IH [of "max a x"] by simp
qed

lemma Math_max_Fin: "xs \<noteq> [] \<Longrightarrow> Math_max (map Fin xs) = Fin (Max (set xs))"
  by (cases xs) (simp_all add: Math_max_def Math_max_Fin_aux)

section \<open>Estimation: the claims\<close>

text \<open>
  C1 (code defect). The claim: for a non-empty integer sample, \<^verbatim>\<open>estimateMLE\<close> with family
  \<^verbatim>\<open>'poisson'\<close> reports as log-likelihood the sum over the sample of
  \<open>k ln(lambda) - lambda - ln(k!)\<close>. The code does not: \<^verbatim>\<open>calculateLogLikelihood\<close> has no
  Poisson case, so the reported log-likelihood is \<^verbatim>\<open>-Infinity\<close> for every sample. On
  \<open>[2, 3, 2]\<close> the fitted \<open>lambda\<close> is \<open>7/3\<close> and the log-likelihood is \<^verbatim>\<open>-Infinity\<close>,
  which is not the finite sum of the claim.
\<close>

theorem C1_poisson_logLikelihood_is_neg_infinity:
  "estimateMLE [2, 3, 2] ''poisson'' ip
     = Inr \<lparr> est_method = MLE, estimatedParams = [(''lambda'', Fin (7 / 3))],
             logLikelihood = Some NInf \<rparr>
   \<and> Some NInf \<noteq> Some (Fin (\<Sum>k\<leftarrow>[2, 3, 2 :: nat]. real k * ln (7 / 3) - 7 / 3 - ln (fact k)))
   \<and> (\<exists>r. estimateMLE data ''poisson'' ip = Inr r \<and> logLikelihood r = Some NInf)"
  by (simp add: estimateMLE_def calculateLogLikelihood_def Let_def)

lemma factorial_loop_fact: "2 \<le> i \<Longrightarrow> factorial_loop i (real n) (fact (i - 1)) = fact (max n (i - 1))"
proof (induction "Suc n - i" arbitrary: i)
  case 0
  then have "\<not> real i \<le> real n" by simp
  moreover from 0 have "max n (i - 1) = i - 1" by simp
  ultimately show ?case by simp
next
  case (Suc d)
  then have le: "real i \<le> real n" by simp
  have "fact (i - 1) * real i = (fact (Suc i - 1) :: real)"
    using Suc.prems by (cases i) (simp_all add: algebra_simps)
  moreover have "factorial_loop (Suc i) (real n) (fact (Suc i - 1)) = fact (max n (Suc i - 1))"
    using Suc by (intro Suc.hyps(1)) simp_all
  moreover have "max n (Suc i - 1) = max n (i - 1)" using Suc by simp
  ultimately show ?case using le by (simp del: factorial_loop.simps add: factorial_loop.simps [of i])
qed

lemma factorial_nat: "factorial (real n) = Fin (fact n)"
proof (cases "n = 0")
  case True
  then show ?thesis by (simp add: factorial_def)
next
  case False
  have "factorial_loop 2 (real n) (fact (2 - 1)) = fact (max n (2 - 1))"
    by (rule factorial_loop_fact) simp
  moreover have "max n (2 - 1) = n" using False by simp
  ultimately show ?thesis using False by (simp add: factorial_def)
qed

lemma App_poisson_fold:
  assumes "0 < lam"
  shows "foldl (\<lambda>acc k. acc + Fin k * js_log (Fin lam) - Fin lam - js_log (factorial k))
           (Fin a) (map real ks)
         = Fin (a + (\<Sum>k\<leftarrow>ks. real k * ln lam - lam - ln (fact k)))"
  using assms by (induction ks arbitrary: a) (simp_all add: factorial_nat algebra_simps)

text \<open>
  What the component's estimator does on the Poisson family, for comparison with C1: for
  a sample of counts with a positive mean it reports the sum of
  \<open>k ln(lambda) - lambda - ln(k!)\<close> over the sample.
\<close>

lemma App_estimateMLE_poisson_logLikelihood:
  assumes "ks \<noteq> []" and "0 < sum_list (map real ks)"
  shows "App_estimateMLE (map real ks) ''poisson''
     = Inr \<lparr> est_method = MLE,
             estimatedParams = [(''lambda'', Fin (sum_list (map real ks) / real (length ks)))],
             logLikelihood = Some (Fin (\<Sum>k\<leftarrow>ks.
                 real k * ln (sum_list (map real ks) / real (length ks))
                 - sum_list (map real ks) / real (length ks) - ln (fact k))) \<rparr>"
proof -
  have lam: "0 < sum_list (map real ks) / real (length ks)"
    using assms by simp
  have "foldl (\<lambda>a b. a + b) (Fin 0) (map Fin (map real ks)) = Fin (sum_list (map real ks))"
    by (simp only: foldl_add_Fin) simp
  then have m: "foldl (\<lambda>a b. a + b) (Fin 0) (map Fin (map real ks))
          / Fin (real (length (map real ks)))
        = Fin (sum_list (map real ks) / real (length ks))"
    using assms(1) by (simp del: map_map)
  show ?thesis
    unfolding App_estimateMLE_def Let_def m App_poisson_fold [OF lam]
    by simp
qed

text \<open>
  C2. For every non-empty sample and each of the families normal, exponential and poisson,
  \<^verbatim>\<open>estimateMLE\<close> and \<^verbatim>\<open>estimateMoM\<close> return the same \<open>estimatedParams\<close>.
\<close>

theorem C2_mle_mom_params_coincide:
  assumes "data \<noteq> []" and "d \<in> {''normal'', ''exponential'', ''poisson''}"
  shows "\<exists>r1 r2. estimateMLE data d ip1 = Inr r1 \<and> estimateMoM data d ip2 = Inr r2
           \<and> estimatedParams r1 = estimatedParams r2"
  using assms by (auto simp add: estimateMLE_def estimateMoM_def Let_def)

theorem C2_witness:
  "[1, 2, 4] \<noteq> ([] :: real list) \<and> ''exponential'' \<in> {''normal'', ''exponential'', ''poisson''}
   \<and> (\<exists>r1 r2. estimateMLE [1, 2, 4] ''exponential'' [] = Inr r1
         \<and> estimateMoM [1, 2, 4] ''exponential'' [] = Inr r2
         \<and> estimatedParams r1 = estimatedParams r2)"
  using C2_mle_mom_params_coincide [of "[1, 2, 4]" "''exponential''" "[]" "[]"] by simp

text \<open>
  C5 (amended). The claim that an empty sample makes \<^verbatim>\<open>estimateMLE\<close> and
  \<^verbatim>\<open>estimateMoM\<close> fail with an \<open>EstimationError\<close> does not hold: the source never throws.
  For every distribution name both calls return a result carrying their method tag; for
  the normal family the estimated \<open>mean\<close> and \<open>stdDev\<close> are NaN (from \<open>0/0\<close>) and the
  log-likelihood is \<open>0\<close>.
\<close>

theorem C5_empty_sample_returns_result:
  "(\<exists>r. estimateMLE [] d ip = Inr r \<and> est_method r = MLE)
   \<and> (\<exists>r. estimateMoM [] d ip = Inr r \<and> est_method r = MoM)
   \<and> estimateMLE [] ''normal'' ip
       = Inr \<lparr> est_method = MLE, estimatedParams = [(''mean'', NaN), (''stdDev'', NaN)],
               logLikelihood = Some (Fin 0) \<rparr>
   \<and> estimateMoM [] ''normal'' ip
       = Inr \<lparr> est_method = MoM, estimatedParams = [(''mean'', NaN), (''stdDev'', NaN)],
               logLikelihood = Some (Fin 0) \<rparr>"
  by (simp add: estimateMLE_def estimateMoM_def calculateLogLikelihood_def Let_def js_ops)

text \<open>The counterexample to C5 as stated: \<^verbatim>\<open>estimateMLE([], 'normal')\<close> returns.\<close>

theorem C5_counterexample:
  "estimateMLE [] ''normal'' [] \<noteq> Inl EstimationError
   \<and> estimateMLE [] ''normal'' []
       = Inr \<lparr> est_method = MLE, estimatedParams = [(''mean'', NaN), (''stdDev'', NaN)],
               logLikelihood = Some (Fin 0) \<rparr>"
  by (simp add: estimateMLE_def calculateLogLikelihood_def Let_def js_ops)

text \<open>
  C8 (amended). The claim that the binomial MLE uses a fixed trial count of 10 and clamps
  \<open>p\<close> into \<open>[0.01, 0.99]\<close> does not hold for \<^verbatim>\<open>estimateMLE\<close> of statistics.ts. For every
  non-empty sample it estimates \<open>n\<close> from the data as the sample maximum plus one and returns
  \<open>p\<close> as the sample mean divided by that \<open>n\<close>, without clamping.
\<close>

theorem C8_binomial_mle_from_sample_maximum:
  assumes "data \<noteq> []"
  shows "estimateMLE data ''binomial'' ip
     = Inr \<lparr> est_method = MLE,
             estimatedParams =
               [(''n'', Fin (Max (set data) + 1)),
                (''p'', Fin (sum_list data / real (length data)) / Fin (Max (set data) + 1))],
             logLikelihood = Some NInf \<rparr>"
  using assms
  by (simp add: estimateMLE_def calculateLogLikelihood_def Let_def Math_max_Fin foldl_add_Fin)

theorem C8_witness:
  "[3, 5] \<noteq> ([] :: real list)
   \<and> estimateMLE [3, 5] ''binomial'' []
       = Inr \<lparr> est_method = MLE, estimatedParams = [(''n'', Fin 6), (''p'', Fin (2 / 3))],
               logLikelihood = Some NInf \<rparr>"
  using C8_binomial_mle_from_sample_maximum [of "[3, 5]" "[]"] by simp

text \<open>The counterexample to C8 as stated: on the sample \<open>[0]\<close> the estimated \<open>n\<close> is 1,
  not 10, and \<open>p\<close> is 0, outside \<open>[0.01, 0.99]\<close>.\<close>

theorem C8_counterexample:
  "estimateMLE [0] ''binomial'' []
     = Inr \<lparr> est_method = MLE, estimatedParams = [(''n'', Fin 1), (''p'', Fin 0)],
             logLikelihood = Some NInf \<rparr>
   \<and> Fin 1 \<noteq> Fin 10 \<and> \<not> (1 / 100 \<le> (0 :: real))"
  by (simp add: estimateMLE_def calculateLogLikelihood_def Let_def Math_max_def)

text \<open>
  For comparison with C8: the component's estimator is the one that fixes \<open>n = 10\<close> and
  clamps \<open>p\<close> into \<open>[0.01, 0.99]\<close>.
\<close>

lemma App_estimateMLE_binomial_fixed_n:
  assumes "data \<noteq> []"
  shows "App_estimateMLE data ''binomial''
     = Inr \<lparr> est_method = MLE,
             estimatedParams =
               [(''n'', Fin 10),
                (''p'', Fin (min (99 / 100) (max (1 / 100) (sum_list data / real (length data) / 10))))],
             logLikelihood = None \<rparr>"
  using assms by (simp add: App_estimateMLE_def Let_def foldl_add_Fin min_def max_def)

lemma sqrt_2475_bounds:
  "4974 / 1000 < sqrt (3 * (825 / 100)) \<and> sqrt (3 * (825 / 100)) < (4975 / 1000 :: real)"
proof
  show "(4974 / 1000 :: real) < sqrt (3 * (825 / 100))"
    by (rule real_less_rsqrt) (simp add: power2_eq_square)
  show "sqrt (3 * (825 / 100)) < (4975 / 1000 :: real)"
    by (rule real_less_lsqrt) (simp_all add: power2_eq_square)
qed

lemma mom_uniform_0_9:
  "estimateMoM [0, 1, 2, 3, 4, 5, 6, 7, 8, 9] ''uniform'' ip
     = Inr \<lparr> est_method = MoM,
             estimatedParams = [(''min'', Fin (45 / 10 - sqrt (3 * (825 / 100)))),
                                (''max'', Fin (45 / 10 + sqrt (3 * (825 / 100))))],
             logLikelihood = Some NInf \<rparr>"
proof -
  have "sqrt 3 * sqrt (33 / 4) = sqrt (3 * (825 / 100))"
    by (simp only: real_sqrt_mult [symmetric]) simp
  then have e: "9 / 2 - sqrt 3 * sqrt (33 / 4) = 45 / 10 - sqrt (3 * (825 / 100))"
    "9 / 2 + sqrt 3 * sqrt (33 / 4) = 45 / 10 + sqrt (3 * (825 / 100))" by simp_all
  have "estimateMoM [0, 1, 2, 3, 4, 5, 6, 7, 8, 9] ''uniform'' ip
     = Inr \<lparr> est_method = MoM,
             estimatedParams = [(''min'', Fin (9 / 2 - sqrt 3 * sqrt (33 / 4))),
                                (''max'', Fin (9 / 2 + sqrt 3 * sqrt (33 / 4)))],
             logLikelihood = Some NInf \<rparr>"
    by (simp add: estimateMoM_def calculateLogLikelihood_def Let_def power2_eq_square)
  then show ?thesis by (simp only: e)
qed

lemma mom_normal_0_9:
  "\<exists>r. estimateMoM [0, 1, 2, 3, 4, 5, 6, 7, 8, 9] ''normal'' ip = Inr r
      \<and> estimatedParams r = [(''mean'', Fin (45 / 10)), (''stdDev'', Fin (sqrt (825 / 100)))]"
  by (simp add: estimateMoM_def Let_def power2_eq_square)

text \<open>
  C9. On the sample \<open>[0, 1, ..., 9]\<close> with family \<^verbatim>\<open>'uniform'\<close>, \<^verbatim>\<open>estimateMLE\<close> returns
  \<open>min = 0\<close> and \<open>max = 9\<close>, and \<^verbatim>\<open>estimateMoM\<close> returns \<open>min = 4.5 - sqrt (3 * 8.25)\<close> and
  \<open>max = 4.5 + sqrt (3 * 8.25)\<close>, within a thousandth of \<open>-0.474\<close> and \<open>9.474\<close>; \<open>4.5\<close>
  is the sample mean and \<open>8.25\<close> the variance with denominator \<open>n\<close>, as the normal fit
  of the same sample shows.
\<close>

theorem C9_uniform_sample_0_to_9:
  "estimateMLE [0, 1, 2, 3, 4, 5, 6, 7, 8, 9] ''uniform'' ip
     = Inr \<lparr> est_method = MLE, estimatedParams = [(''min'', Fin 0), (''max'', Fin 9)],
             logLikelihood = Some NInf \<rparr>
   \<and> estimateMoM [0, 1, 2, 3, 4, 5, 6, 7, 8, 9] ''uniform'' ip
     = Inr \<lparr> est_method = MoM,
             estimatedParams = [(''min'', Fin (45 / 10 - sqrt (3 * (825 / 100)))),
                                (''max'', Fin (45 / 10 + sqrt (3 * (825 / 100))))],
             logLikelihood = Some NInf \<rparr>
   \<and> (\<exists>r. estimateMoM [0, 1, 2, 3, 4, 5, 6, 7, 8, 9] ''normal'' ip = Inr r
         \<and> estimatedParams r = [(''mean'', Fin (45 / 10)), (''stdDev'', Fin (sqrt (825 / 100)))])
   \<and> \<bar>(45 / 10 - sqrt (3 * (825 / 100))) - (- 474 / 1000)\<bar> < (1 / 1000 :: real)
   \<and> \<bar>(45 / 10 + sqrt (3 * (825 / 100))) - 9474 / 1000\<bar> < (1 / 1000 :: real)"
proof -
  have mle: "estimateMLE [0, 1, 2, 3, 4, 5, 6, 7, 8, 9] ''uniform'' ip
     = Inr \<lparr> est_method = MLE, estimatedParams = [(''min'', Fin 0), (''max'', Fin 9)],
             logLikelihood = Some NInf \<rparr>"
    by (simp add: estimateMLE_def calculateLogLikelihood_def Let_def Math_max_def Math_min_def)
  have lo: "\<bar>(45 / 10 - sqrt (3 * (825 / 100))) - (- 474 / 1000)\<bar> < (1 / 1000 :: real)"
    using sqrt_2475_bounds by linarith
  have hi: "\<bar>(45 / 10 + sqrt (3 * (825 / 100))) - 9474 / 1000\<bar> < (1 / 1000 :: real)"
    using sqrt_2475_bounds by linarith
  show ?thesis
    using mle mom_uniform_0_9 [of ip] mom_normal_0_9 [of ip] lo hi by blast
qed

section \<open>Descriptive statistics: the claims\<close>

lemma summary_fields:
  "\<exists>r. calculateSummaryStats data = Inr r
     \<and> mean r = foldl (\<lambda>sum x. sum + x) (Fin 0) (map Fin data) / Fin (real (length data))
     \<and> variance r = foldl (\<lambda>sum x. sum + js_pow (x - mean r) 2) (Fin 0) (map Fin data)
                      / (Fin (real (length data)) - Fin 1)
     \<and> standardDeviation r = js_sqrt (variance r)
     \<and> skewness r = calculateSkewness (map Fin data) (mean r) (standardDeviation r)
     \<and> kurtosis r = calculateKurtosis (map Fin data) (mean r) (standardDeviation r)
     \<and> quartiles r = \<lparr> q1 = calculatePercentile (map Fin (sort data)) 25,
                        q2 = calculatePercentile (map Fin (sort data)) 50,
                        q3 = calculatePercentile (map Fin (sort data)) 75 \<rparr>"
  by (simp add: calculateSummaryStats_def Let_def)

lemma skew_coef: "n = 1 \<or> n = 2 \<Longrightarrow>
   Fin (real n) / ((Fin (real n) - Fin 1) * (Fin (real n) - Fin 2)) = PInf"
  by (auto simp: js_ops)

lemma kurt_coef: "n = 1 \<or> n = 2 \<or> n = 3 \<Longrightarrow>
   (Fin (real n) * (Fin (real n) + Fin 1))
     / ((Fin (real n) - Fin 1) * (Fin (real n) - Fin 2) * (Fin (real n) - Fin 3)) = PInf"
  by (auto simp: js_ops)

lemma skewness_small:
  "length xs = 1 \<or> length xs = 2 \<Longrightarrow> \<not> is_fin (calculateSkewness xs m sd)"
  unfolding calculateSkewness_def Let_def
  by (simp only: skew_coef PInf_mul_not_fin not_False_eq_True)

lemma kurtosis_small:
  assumes "length xs = 1 \<or> length xs = 2 \<or> length xs = 3"
  shows "\<not> is_fin (calculateKurtosis xs m sd)"
proof
  assume "is_fin (calculateKurtosis xs m sd)"
  then have "is_fin (PInf * foldl (\<lambda>sum x. sum + js_pow ((x - m) / sd) 4) (Fin 0) xs)"
    unfolding calculateKurtosis_def Let_def kurt_coef [OF assms] by (rule sub_fin_left)
  then show False by (simp add: PInf_mul_not_fin)
qed

lemma variance_single:
  "calculateSummaryStats [x] = Inr r \<Longrightarrow> variance r = NaN \<and> standardDeviation r = NaN"
  by (auto simp: calculateSummaryStats_def Let_def js_ops)

text \<open>
  C7 (amended). The claim that a sample too small for a statistic makes the computation
  fail with an \<open>InsufficientDataError\<close> does not hold: \<^verbatim>\<open>calculateSummaryStats\<close> never
  throws. It returns a record for every sample, and what a too small, non-empty sample
  gets is a value that is not finite: the variance and the standard deviation are NaN for
  one element, the skewness is not a finite number for one or two elements, and the
  kurtosis is not a finite number for one, two or three elements.
\<close>

theorem C7_small_sample_returns_non_finite:
  "\<exists>r. calculateSummaryStats data = Inr r
     \<and> (length data = 1 \<longrightarrow> variance r = NaN \<and> standardDeviation r = NaN)
     \<and> (length data = 1 \<or> length data = 2 \<longrightarrow> \<not> is_fin (skewness r))
     \<and> (length data = 1 \<or> length data = 2 \<or> length data = 3 \<longrightarrow> \<not> is_fin (kurtosis r))"
proof -
  obtain r where r: "calculateSummaryStats data = Inr r"
    and sk: "skewness r = calculateSkewness (map Fin data) (mean r) (standardDeviation r)"
    and ku: "kurtosis r = calculateKurtosis (map Fin data) (mean r) (standardDeviation r)"
    using summary_fields [of data] by blast
  have "variance r = NaN \<and> standardDeviation r = NaN" if "length data = 1"
  proof -
    from that obtain x where "data = [x]" by (cases data) auto
    with r show ?thesis using variance_single by blast
  qed
  moreover have "\<not> is_fin (skewness r)" if "length data = 1 \<or> length data = 2"
    unfolding sk using that by (intro skewness_small) simp
  moreover have "\<not> is_fin (kurtosis r)"
    if "length data = 1 \<or> length data = 2 \<or> length data = 3"
    unfolding ku using that by (intro kurtosis_small) simp
  ultimately show ?thesis using r by blast
qed

theorem C7_witness:
  "length [7 :: real] = 1
   \<and> (\<exists>r. calculateSummaryStats [7] = Inr r
         \<and> variance r = NaN \<and> standardDeviation r = NaN
         \<and> \<not> is_fin (skewness r) \<and> \<not> is_fin (kurtosis r))"
  using C7_small_sample_returns_non_finite [of "[7]"] by simp

text \<open>The counterexample to C7 as stated: \<^verbatim>\<open>calculateSummaryStats([5])\<close> returns a record
  whose variance, standard deviation, skewness and kurtosis are NaN.\<close>

theorem C7_counterexample:
  "calculateSummaryStats [5] \<noteq> Inl InsufficientDataError
   \<and> calculateSummaryStats [5]
     = Inr \<lparr> mean = Fin 5, median = Some (Fin 5), mode = None,
             variance = NaN, standardDeviation = NaN,
             min_val = Some (Fin 5), max_val = Some (Fin 5), range_val = Fin 0,
             quartiles = \<lparr> q1 = Some (Fin 5), q2 = Some (Fin 5), q3 = Some (Fin 5) \<rparr>,
             interquartileRange = Fin 0, skewness = NaN, kurtosis = NaN \<rparr>"
  by (simp add: calculateSummaryStats_def calculatePercentile_def calculateMode_def
      calculateSkewness_def calculateKurtosis_def rounded2_def Math_max_def Let_def js_ops)

lemma sqrt_25_bounds:
  "1580 / 1000 < sqrt (25 / 10) \<and> sqrt (25 / 10) < (1582 / 1000 :: real)"
proof
  show "(1580 / 1000 :: real) < sqrt (25 / 10)"
    by (rule real_less_rsqrt) (simp add: power2_eq_square)
  show "sqrt (25 / 10) < (1582 / 1000 :: real)"
    by (rule real_less_lsqrt) (simp_all add: power2_eq_square)
qed

lemma summary_variance_unbiased:
  assumes "2 \<le> length data"
  shows "\<exists>r. calculateSummaryStats data = Inr r
   \<and> mean r = Fin (sum_list data / real (length data))
   \<and> variance r = Fin ((\<Sum>x\<leftarrow>data. (x - sum_list data / real (length data))\<^sup>2)
                        / (real (length data) - 1))"
proof -
  from assms have n: "data \<noteq> []" "length data \<noteq> 1" "length data \<noteq> Suc 0" by auto
  show ?thesis
    by (simp add: calculateSummaryStats_def Let_def foldl_add_Fin foldl_sq_Fin n)
qed

lemma mle_normal_biased:
  assumes "data \<noteq> []"
  shows "\<exists>r. estimateMLE data ''normal'' ip = Inr r
     \<and> estimatedParams r = [(''mean'', Fin (sum_list data / real (length data))),
         (''stdDev'', Fin (sqrt ((\<Sum>x\<leftarrow>data. (x - sum_list data / real (length data))\<^sup>2)
                                  / real (length data))))]"
proof -
  have "0 \<le> (\<Sum>x\<leftarrow>data. (x - sum_list data / real (length data))\<^sup>2) / real (length data)"
    by (simp add: sumsq_nonneg)
  then show ?thesis
    by (simp add: estimateMLE_def Let_def foldl_add_Fin foldl_sq_Fin assms)
qed

lemma summary_1_to_5:
  "\<exists>r. calculateSummaryStats [1, 2, 3, 4, 5] = Inr r \<and> mean r = Fin 3
     \<and> median r = Some (Fin 3) \<and> variance r = Fin (25 / 10)
     \<and> standardDeviation r = Fin (sqrt (25 / 10))
     \<and> range_val r = Fin 4 \<and> q1 (quartiles r) = Some (Fin 2) \<and> q3 (quartiles r) = Some (Fin 4)
     \<and> interquartileRange r = Fin 2"
  by (simp add: calculateSummaryStats_def calculatePercentile_def Let_def)

lemma percentile_interpolates:
  "calculatePercentile (map Fin [1, 2, 3, 4]) 25 = Some (Fin (1 * (1 - 3 / 4) + 2 * (3 / 4)))"
  by (simp add: calculatePercentile_def Let_def)

text \<open>
  C10. \<^verbatim>\<open>calculateSummaryStats\<close> divides the sum of squared deviations by \<open>n - 1\<close>, where
  the normal MLE divides by \<open>n\<close>. On \<open>[1, 2, 3, 4, 5]\<close> it returns mean 3, median 3,
  variance 2.5, standard deviation \<open>sqrt 2.5\<close> (within a thousandth of 1.581), range 4,
  \<open>q1 = 2\<close>, \<open>q3 = 4\<close> and interquartile range 2. The quartiles are
  \<^verbatim>\<open>calculatePercentile\<close> of the sorted sample at 25, 50 and 75, which interpolates linearly
  between neighbours: the 25th percentile of \<open>[1, 2, 3, 4]\<close> is \<open>1 * 0.25 + 2 * 0.75\<close>.
\<close>

theorem C10_summary_statistics:
  "(2 \<le> length data \<longrightarrow>
      (\<exists>r. calculateSummaryStats data = Inr r
         \<and> mean r = Fin (sum_list data / real (length data))
         \<and> variance r = Fin ((\<Sum>x\<leftarrow>data. (x - sum_list data / real (length data))\<^sup>2)
                              / (real (length data) - 1))))
   \<and> (data \<noteq> [] \<longrightarrow>
      (\<exists>r. estimateMLE data ''normal'' ip = Inr r
         \<and> estimatedParams r = [(''mean'', Fin (sum_list data / real (length data))),
             (''stdDev'', Fin (sqrt ((\<Sum>x\<leftarrow>data. (x - sum_list data / real (length data))\<^sup>2)
                                      / real (length data))))]))
   \<and> (\<exists>r. calculateSummaryStats [1, 2, 3, 4, 5] = Inr r \<and> mean r = Fin 3
         \<and> median r = Some (Fin 3) \<and> variance r = Fin (25 / 10)
         \<and> standardDeviation r = Fin (sqrt (25 / 10))
         \<and> range_val r = Fin 4 \<and> q1 (quartiles r) = Some (Fin 2)
         \<and> q3 (quartiles r) = Some (Fin 4) \<and> interquartileRange r = Fin 2)
   \<and> \<bar>sqrt (25 / 10) - 1581 / 1000\<bar> < (1 / 1000 :: real)
   \<and> (\<exists>r. calculateSummaryStats data = Inr r
         \<and> quartiles r = \<lparr> q1 = calculatePercentile (map Fin (sort data)) 25,
                            q2 = calculatePercentile (map Fin (sort data)) 50,
                            q3 = calculatePercentile (map Fin (sort data)) 75 \<rparr>)
   \<and> calculatePercentile (map Fin [1, 2, 3, 4]) 25 = Some (Fin (1 * (1 - 3 / 4) + 2 * (3 / 4)))"
proof -
  have sd: "\<bar>sqrt (25 / 10) - 1581 / 1000\<bar> < (1 / 1000 :: real)"
    using sqrt_25_bounds by linarith
  have qs: "\<exists>r. calculateSummaryStats data = Inr r
         \<and> quartiles r = \<lparr> q1 = calculatePercentile (map Fin (sort data)) 25,
                            q2 = calculatePercentile (map Fin (sort data)) 50,
                            q3 = calculatePercentile (map Fin (sort data)) 75 \<rparr>"
    using summary_fields [of data] by blast
  show ?thesis
    using summary_variance_unbiased [of data] mle_normal_biased [of data ip]
      summary_1_to_5 sd qs percentile_interpolates
    by (intro conjI impI) assumption+
qed

theorem C10_witness:
  "2 \<le> length [2, 4, 6 :: real] \<and> [2, 4, 6] \<noteq> ([] :: real list)
   \<and> (\<exists>r. calculateSummaryStats [2, 4, 6] = Inr r \<and> mean r = Fin 4 \<and> variance r = Fin 4)
   \<and> (\<exists>r. estimateMLE [2, 4, 6] ''normal'' [] = Inr r
         \<and> estimatedParams r = [(''mean'', Fin 4), (''stdDev'', Fin (sqrt (8 / 3)))])"
  using C10_summary_statistics [of "[2, 4, 6]" "[]"] by simp

section \<open>Sampling: loops and the seeded source\<close>

lemma for_loop_fin:
  assumes step: "\<And>j st. I j st \<Longrightarrow> \<exists>st'. body st = Some st' \<and> I (Suc j) st'"
    and init: "I i st"
  shows "\<exists>st'. for_loop i (Fin r) body st = Some st' \<and> I (max i (nat \<lceil>r\<rceil>)) st'"
  using init
proof (induction "nat \<lceil>r\<rceil> - i" arbitrary: i st)
  case 0
  then have "r \<le> real i" by linarith
  then have "for_loop i (Fin r) body st = Some st"
    by (subst for_loop.simps) simp
  moreover from 0 have "max i (nat \<lceil>r\<rceil>) = i" by simp
  ultimately show ?case using "0.prems" by simp
next
  case (Suc d)
  then have lt: "real i < r" by linarith
  from step [OF Suc.prems] obtain st' where b: "body st = Some st'" and I': "I (Suc i) st'"
    by blast
  from Suc.hyps(2) have "d = nat \<lceil>r\<rceil> - Suc i" by simp
  from Suc.hyps(1) [OF this I'] obtain st'' where
    r: "for_loop (Suc i) (Fin r) body st' = Some st''" and I'': "I (max (Suc i) (nat \<lceil>r\<rceil>)) st''"
    by blast
  have "for_loop i (Fin r) body st = Some st''"
    using lt b r by (subst for_loop.simps) simp
  moreover from Suc.hyps(2) have "max (Suc i) (nat \<lceil>r\<rceil>) = max i (nat \<lceil>r\<rceil>)" by simp
  ultimately show ?case using I'' by simp
qed

lemma for_loop_skip: "bound = NaN \<or> bound = NInf \<Longrightarrow> for_loop i bound body st = Some st"
  by (subst for_loop.simps) (auto simp: js_ops)

lemma for_loop_total:
  assumes "bound \<noteq> PInf" and "\<And>st. \<exists>st'. body st = Some st'"
  shows "\<exists>st'. for_loop i bound body st = Some st'"
proof (cases bound)
  case (Fin r)
  show ?thesis
    using for_loop_fin [where I = "\<lambda>_ _. True" and body = body and i = i and st = st and r = r]
      assms(2) unfolding Fin by blast
qed (use assms(1) in \<open>simp_all add: for_loop_skip\<close>)

lemma for_loop_collects:
  assumes "\<And>data s. \<exists>x s'. body (data, s) = Some (data @ [x], s') \<and> P x"
  shows "\<exists>xs. map_option (\<lambda>(data, s). Inr data) (for_loop 0 (Fin (real k)) body ([], s0))
                 = Some (Inr xs) \<and> length xs = k \<and> list_all P xs"
proof -
  have "\<exists>st'. for_loop 0 (Fin (real k)) body ([], s0) = Some st'
          \<and> (length (fst st') = max 0 (nat \<lceil>real k\<rceil>) \<and> list_all P (fst st'))"
  proof (rule for_loop_fin [where I = "\<lambda>j st. length (fst st) = j \<and> list_all P (fst st)"])
    fix j and st :: "'a list \<times> 'b"
    assume "length (fst st) = j \<and> list_all P (fst st)"
    moreover obtain x s' where "body (fst st, snd st) = Some (fst st @ [x], s')" "P x"
      using assms by blast
    ultimately show "\<exists>st'. body st = Some st'
        \<and> (length (fst st') = Suc j \<and> list_all P (fst st'))" by simp
  qed simp
  then obtain data' s' where "for_loop 0 (Fin (real k)) body ([], s0) = Some (data', s')"
    "length data' = k" "list_all P data'" by auto
  then show ?thesis by simp
qed

lemma for_loop_grows_result:
  assumes "\<And>data s. \<exists>x s'. body (data, s) = Some (data @ [x], s')"
  shows "\<exists>xs. map_option (\<lambda>(data, s). Inr data) (for_loop 0 (Fin (real k)) body ([], s0))
                 = Some (Inr xs) \<and> length xs = k"
  using for_loop_collects [where body = body and P = "\<lambda>_. True" and k = k and ?s0.0 = s0] assms
  by auto

lemma for_loop_lt: "real i < r \<Longrightarrow>
  for_loop i (Fin r) body st = Option.bind (body st) (for_loop (Suc i) (Fin r) body)"
  by (subst for_loop.simps) simp

lemma for_loop_ge: "\<not> real i < r \<Longrightarrow> for_loop i (Fin r) body st = Some st"
  by (subst for_loop.simps) simp

lemma js_rem_nat:
  assumes "0 < b"
  shows "js_rem (Fin (real a)) (Fin (real b)) = Fin (real (a mod b))"
proof -
  have "trunc (real a / real b) = int (a div b)"
    by (simp add: trunc_def floor_divide_of_nat_eq)
  moreover have "real a - real b * real (a div b) = real (a mod b)"
    by (metis add_diff_cancel_left' of_nat_add of_nat_mult div_mult_mod_eq mult.commute)
  ultimately show ?thesis using assms by simp
qed

lemma js_rem_2_32: "js_rem (Fin (real a)) (Fin 4294967296) = Fin (real (a mod 4294967296))"
  using js_rem_nat [of 4294967296 a] by simp

lemma lcg_random_nat:
  assumes "s < 4294967296"
  shows "lcg_random (Fin (real s)) =
     (Fin (real ((s * 1664525 + 1013904223) mod 4294967296) / 4294967296),
      Fin (real ((s * 1664525 + 1013904223) mod 4294967296)))"
proof -
  have "Fin (real s) * Fin 1664525 + Fin 1013904223 = Fin (real (s * 1664525 + 1013904223))"
    by simp
  then show ?thesis
    unfolding lcg_random_def Let_def by (simp only: js_rem_2_32) simp
qed

text \<open>
  The families whose only loops are counted loops return one value per iteration, for any
  uniform source and any parameters. The Poisson family is left out: whether its
  \<^verbatim>\<open>while\<close> loop ends depends on the rounding of the running sum.
\<close>

lemma generateWithCustomRandom_returns:
  assumes "distribution \<noteq> Poisson"
    and "distribution = Binomial \<Longrightarrow> field ps ''n'' \<noteq> PInf"
  shows "\<exists>xs. generateWithCustomRandom distribution ps (Fin (real k)) random s0 = Some (Inr xs)
            \<and> length xs = k"
proof (cases distribution)
  case Normal
  show ?thesis
    unfolding generateWithCustomRandom_def Normal DistributionType.case Let_def
    by (rule for_loop_grows_result) (simp add: split_def)
next
  case Exponential
  show ?thesis
    unfolding generateWithCustomRandom_def Exponential DistributionType.case Let_def
    by (rule for_loop_grows_result) (simp add: split_def)
next
  case Binomial
  have inner: "\<exists>st'. for_loop 0 (field ps ''n'') body st = Some st'"
    if "\<And>st. \<exists>st'. body st = Some st'" for body :: "nat \<times> 'a \<Rightarrow> (nat \<times> 'a) option" and st
    by (rule for_loop_total [OF assms(2) [OF Binomial]]) (rule that)
  show ?thesis
    unfolding generateWithCustomRandom_def Binomial DistributionType.case Let_def
    apply (rule for_loop_grows_result)
    subgoal for data s
      using inner [of "\<lambda>(successes, s). case random s of
           (u, s1) \<Rightarrow> Some (if u < field ps ''p'' then Suc successes else successes, s1)" "(0, s)"]
      by (auto simp: split_def)
    done
next
  case Poisson
  with assms(1) show ?thesis by simp
next
  case Uniform
  show ?thesis
    unfolding generateWithCustomRandom_def Uniform DistributionType.case Let_def
    by (rule for_loop_grows_result) (simp add: split_def)
qed

lemma generateData_returns:
  assumes "d \<noteq> Poisson" and "d = Binomial \<longrightarrow> field ps ''n'' \<le> Fin 9007199254740992"
  shows "\<exists>xs. generateData M env d ps (Fin (real k)) seed = Some (Inr xs) \<and> length xs = k"
proof -
  have n: "field ps ''n'' \<noteq> PInf" if "d = Binomial"
    using assms(2) that by (auto simp: js_ops)
  show ?thesis
    unfolding generateData_def
    by (cases seed) (simp_all add: generateWithCustomRandom_returns [OF assms(1) n])
qed

lemma generateWithCustomRandom_no_error:
  "generateWithCustomRandom distribution ps sampleSize random s0 \<noteq> Some (Inl e)"
  by (auto simp: generateWithCustomRandom_def split: DistributionType.splits)

lemma generateWithCustomRandom_nonpositive:
  "r \<le> 0 \<Longrightarrow> generateWithCustomRandom distribution ps (Fin r) random s0 = Some (Inr [])"
  by (cases distribution) (simp_all add: generateWithCustomRandom_def Let_def for_loop_ge)

section \<open>Sampling: the claims\<close>

lemma lcg_zero_draw: "lcg_random (Fin 634785765) = (Fin 0, Fin 0)"
proof -
  have "lcg_random (Fin (real 634785765)) = (Fin 0, Fin 0)"
    by (subst lcg_random_nat) simp_all
  then show ?thesis by simp
qed

lemma lcg_first_draw: "lcg_random (Fin 0) = (Fin (1013904223 / 4294967296), Fin 1013904223)"
proof -
  have "lcg_random (Fin (real 0)) = (Fin (1013904223 / 4294967296), Fin 1013904223)"
    by (subst lcg_random_nat) simp_all
  then show ?thesis by simp
qed

text \<open>Without a seed the sample follows \<^verbatim>\<open>Math.random\<close>: two sources give two samples.\<close>

lemma unseeded_generation_follows_source:
  "generateData (constant_source (Fin 0)) () Uniform [(''min'', Fin 0), (''max'', Fin 1)]
       (Fin 1) None = Some (Inr [Fin 0])
   \<and> generateData (constant_source (Fin (1 / 2))) () Uniform [(''min'', Fin 0), (''max'', Fin 1)]
       (Fin 1) None = Some (Inr [Fin (1 / 2)])"
  by (simp add: generateData_def generateWithCustomRandom_def field_def Let_def
      for_loop_lt for_loop_ge constant_source_def)



text \<open>
  C4 (code defect). The claim: for a uniform source with values in \<open>[0, 1)\<close>, a draw of
  exactly 0 included, the sampler returns finite numbers in the support of the family. The
  code takes the logarithm of the draw as it comes, in the exponential and the normal case:
  on a draw of 0 the exponential sampler returns \<^verbatim>\<open>Infinity\<close> (from \<open>- ln 0\<close>) and so does
  the normal sampler. The seeded generator of \<^verbatim>\<open>generateData\<close> is a source that draws 0:
  from the seed 634785765 its first draw is exactly 0, and the sample is \<^verbatim>\<open>[Infinity]\<close>.
\<close>

theorem C4_zero_draw_gives_infinity:
  "generateData (constant_source (Fin 0)) () Exponential [(''lambda'', Fin 1)] (Fin 1)
       (Some (Fin 634785765)) = Some (Inr [PInf])
   \<and> lcg_random (Fin 634785765) = (Fin 0, Fin 0)
   \<and> generateWithCustomRandom Exponential [(''lambda'', Fin 1)] (Fin 1)
       (constant_source (Fin 0)) () = Some (Inr [PInf])
   \<and> generateWithCustomRandom Normal [(''mean'', Fin 0), (''stdDev'', Fin 1)] (Fin 1)
       (constant_source (Fin 0)) () = Some (Inr [PInf])
   \<and> \<not> is_fin PInf"
  by (simp add: generateData_def generateWithCustomRandom_def field_def Let_def
      for_loop_lt for_loop_ge js_ops constant_source_def lcg_zero_draw)

text \<open>
  C6 (amended). The claim that invalid parameters make \<^verbatim>\<open>generateData\<close> fail with a
  \<open>ValidationError\<close> before sampling does not hold: the source validates nothing and never
  throws. No call fails with an error of the taxonomy; a sample size of zero or less gives
  the empty sample; and for the normal, exponential, uniform and binomial families (with a
  trial count of at most \<open>2^53\<close>) a call with a sample size \<open>k\<close> below \<open>2^32\<close> returns
  exactly \<open>k\<close> values whatever the other parameters are.
\<close>

theorem C6_generateData_validates_nothing:
  "generateData M env d ps n seed \<noteq> Some (Inl e)
   \<and> (r \<le> 0 \<longrightarrow> generateData M env d ps (Fin r) seed = Some (Inr []))
   \<and> (d \<noteq> Poisson \<and> k < 4294967296
        \<and> (d = Binomial \<longrightarrow> field ps ''n'' \<le> Fin 9007199254740992) \<longrightarrow>
        (\<exists>xs. generateData M env d ps (Fin (real k)) seed = Some (Inr xs) \<and> length xs = k))"
proof -
  have "\<exists>xs. generateData M env d ps (Fin (real k)) seed = Some (Inr xs) \<and> length xs = k"
    if "d \<noteq> Poisson" and "d = Binomial \<longrightarrow> field ps ''n'' \<le> Fin 9007199254740992"
    using that by (rule generateData_returns)
  then show ?thesis
    by (cases seed)
       (simp_all add: generateData_def generateWithCustomRandom_no_error
          generateWithCustomRandom_nonpositive)
qed

theorem C6_witness:
  "(- 1 :: real) \<le> 0
   \<and> generateData (constant_source (Fin 0)) () Binomial [(''n'', Fin 3), (''p'', Fin 5)] (Fin (- 1))
       (Some (Fin 1)) = Some (Inr [])
   \<and> Binomial \<noteq> Poisson \<and> (2 :: nat) < 4294967296
   \<and> field [(''n'', Fin 3), (''p'', Fin 5)] ''n'' \<le> Fin 9007199254740992
   \<and> (\<exists>xs. generateData (constant_source (Fin 0)) () Binomial [(''n'', Fin 3), (''p'', Fin 5)]
              (Fin (real 2)) (Some (Fin 1)) = Some (Inr xs)
          \<and> length xs = 2)"
  using C6_generateData_validates_nothing
    [where d = Binomial and ps = "[(''n'', Fin 3), (''p'', Fin 5)]" and r = "- 1" and k = 2
       and M = "constant_source (Fin 0)" and env = "()" and seed = "Some (Fin 1)"
       and n = "Fin 5" and e = ValidationError]
  by (simp add: field_def js_ops)

text \<open>
  The counterexample to C6 as stated: with \<open>min = 1 \<ge> max = 0\<close> the uniform sampler is run
  and returns a value, and with sample size 0 the call returns the empty sample.
\<close>

theorem C6_counterexample:
  "generateData (constant_source (Fin 0)) () Uniform [(''min'', Fin 1), (''max'', Fin 0)] (Fin 1)
     (Some (Fin 0)) = Some (Inr [Fin (1 + 1013904223 / 4294967296 * (0 - 1))])
   \<and> generateData (constant_source (Fin 0)) () Uniform [(''min'', Fin 1), (''max'', Fin 0)] (Fin 1)
       (Some (Fin 0)) \<noteq> Some (Inl ValidationError)
   \<and> generateData (constant_source (Fin 0)) () Exponential [(''lambda'', Fin (- 2))] (Fin 0)
       (Some (Fin 0)) = Some (Inr [])"
  by (simp add: generateData_def generateWithCustomRandom_def field_def Let_def
      for_loop_lt for_loop_ge lcg_first_draw)

end
